theory Spec2Isabelle
  imports Main "HOL-Library.AList"
begin

section \<open>JavaScript values and objects\<close>

text \<open>
  The adapter handles untyped JavaScript data: query objects, payloads and stored
  documents. Numbers are the integers the adapter meets (counts, ages, offsets);
  an object is the list of its own enumerable properties in insertion order.
  \<open>JNative name\<close> is the member that every object inherits under that name (a
  function such as \<open>toString\<close>, or the prototype itself for \<open>__proto__\<close>); it is
  what a property read gives for such a name when the object has no property of its own
  there.
\<close>

datatype jsval =
    JUndefined
  | JNull
  | JBool bool
  | JNum int
  | JStr string
  | JDate int
  | JArr "jsval list"
  | JObj "(string \<times> jsval) list"
  | JNative string

type_synonym object = "(string \<times> jsval) list"

text \<open>The truthiness test behind \<open>if (x)\<close>, \<open>!x\<close> and \<open>&&\<close>.\<close>

fun truthy :: "jsval \<Rightarrow> bool" where
  "truthy JUndefined = False"
| "truthy JNull = False"
| "truthy (JBool b) = b"
| "truthy (JNum n) = (n \<noteq> 0)"
| "truthy (JStr s) = (s \<noteq> [])"
| "truthy (JDate t) = True"
| "truthy (JArr xs) = True"
| "truthy (JObj kvs) = True"
| "truthy (JNative n) = True"

text \<open>The names of the members of \<open>Object.prototype\<close>.\<close>

definition inherited_members :: "string list" where
  "inherited_members =
     [''constructor'', ''__defineGetter__'', ''__defineSetter__'', ''hasOwnProperty'',
      ''__lookupGetter__'', ''__lookupSetter__'', ''isPrototypeOf'', ''propertyIsEnumerable'',
      ''toString'', ''valueOf'', ''__proto__'', ''toLocaleString'']"

text \<open>
  Property read \<open>obj[key]\<close>: the object's own property; without one, the inherited
  member of that name; without either, \<open>undefined\<close>.
\<close>

definition get_prop :: "object \<Rightarrow> string \<Rightarrow> jsval" where
  "get_prop obj key =
     (case map_of obj key of
        Some v \<Rightarrow> v
      | None \<Rightarrow> if key \<in> set inherited_members then JNative key else JUndefined)"

text \<open>
  \<open>Object.assign(target, source)\<close> and the spread \<open>{...target, ...source}\<close>: every
  property of the source is written to the target; an existing key keeps its position
  and takes the new value, a new key is appended.
\<close>

definition assign :: "object \<Rightarrow> object \<Rightarrow> object" where
  "assign target source = fold (\<lambda>(k, v) acc. AList.update k v acc) source target"

text \<open>
  A JavaScript number as far as \<open>$limit\<close> and \<open>$skip\<close> need it: an integer or
  \<open>NaN\<close> (what \<open>parseInt(undefined)\<close> gives).
\<close>

datatype number = NaN | Number int

fun truthy_number :: "number \<Rightarrow> bool" where
  "truthy_number NaN = False"
| "truthy_number (Number n) = (n \<noteq> 0)"

text \<open>Decimal rendering of an array index, the key that \<open>for ... in\<close> and \<open>Object.keys\<close> give.\<close>

fun index_key :: "nat \<Rightarrow> string" where
  "index_key n =
     (if n < 10 then [''0123456789'' ! n]
      else index_key (n div 10) @ [''0123456789'' ! (n mod 10)])"

fun indexed :: "nat \<Rightarrow> jsval list \<Rightarrow> object" where
  "indexed i [] = []"
| "indexed i (x # xs) = (index_key i, x) # indexed (Suc i) xs"

text \<open>
  \<open>Object.keys(value)\<close> together with the values read back through those keys.
  On \<open>null\<close> and \<open>undefined\<close> it throws a TypeError (\<open>None\<close>).
\<close>

fun own_entries :: "jsval \<Rightarrow> object option" where
  "own_entries JUndefined = None"
| "own_entries JNull = None"
| "own_entries (JObj kvs) = Some kvs"
| "own_entries (JArr xs) = Some (indexed 0 xs)"
| "own_entries (JStr s) = Some (indexed 0 (map (\<lambda>c. JStr [c]) s))"
| "own_entries v = Some []"

section \<open>Errors\<close>

text \<open>
  The Feathers error classes the adapter throws, the store library's own error class
  (\<open>RedisOmError\<close>, with its name and message), the TypeError of the language, and any
  other failure of the connection.
\<close>

datatype error =
    NotFound string
  | BadRequest string
  | MethodNotAllowed string
  | GeneralError string string
  | RedisOmError string string
  | TypeError
  | OtherError string

text \<open>\<open>errorHandler\<close> of \<open>src/error-handler.ts\<close>, on an error with the given name and message.\<close>

definition errorHandler :: "string \<Rightarrow> string \<Rightarrow> error" where
  "errorHandler name message =
     (if name \<noteq> [] then GeneralError name message else RedisOmError name message)"

text \<open>
  The \<open>catch\<close> block shared by \<open>redisQuery\<close>, \<open>_find\<close>, \<open>_create\<close>, \<open>_patch\<close>,
  \<open>_update\<close> and \<open>_remove\<close>: a \<open>RedisOmError\<close> goes through \<open>errorHandler\<close>, anything
  else is thrown again as it is.
\<close>

fun rethrow :: "error \<Rightarrow> error" where
  "rethrow (RedisOmError name message) = errorHandler name message"
| "rethrow e = e"

section \<open>The search builder and the repository\<close>

text \<open>
  The calls made on a \<open>Search\<close> builder, in the order they are made. \<open>WhereNotEquals\<close>
  is \<open>search.where(column).not.equals(value)\<close>; \<open>WhereCall column m value\<close> is the
  dynamic call \<open>search.where(column)[m](value)\<close>; \<open>AndEq\<close> is
  \<open>search.and(field).eq(id)\<close>; \<open>WhereField\<close> is \<open>search.where(column)\<close> alone,
  with nothing called on the field.
\<close>

datatype sort_dir = ASC | DESC

datatype clause =
    WhereEquals string jsval
  | WhereNotEquals string jsval
  | WhereCall string string jsval
  | OrGroup "clause list"
  | AndGroup "clause list"
  | SortBy string sort_dir
  | AndEq "string option" string
  | WhereField string

text \<open>The round trips to the store.\<close>

datatype command =
    Fetch string
  | Save string object
  | Remove string
  | Expire jsval int
  | ReturnAll "clause list"
  | ReturnPage "clause list" number number
  | ReturnCount "clause list"

text \<open>
  The store library is an external collaborator, taken through its contract:
  \<open>builder_throws\<close> is the error a builder call raises (an unknown field, say),
  \<open>fault\<close> the error a round trip fails with, and \<open>run\<close> the search engine, which
  gives the matching documents of a built query in result order.
\<close>

record redis_repository =
  builder_throws :: "clause \<Rightarrow> error option"
  fault :: "command \<Rightarrow> error option"
  run :: "clause list \<Rightarrow> (string \<times> object) list \<Rightarrow> (string \<times> object) list"

definition builder_call :: "redis_repository \<Rightarrow> clause \<Rightarrow> clause list \<Rightarrow> error + clause list" where
  "builder_call R c search =
     (case builder_throws R c of Some e \<Rightarrow> Inl e | None \<Rightarrow> Inr (search @ [c]))"

section \<open>Query translation\<close>

text \<open>
  The table \<open>METHODS\<close> of the adapter, an object literal. \<open>METHODS[key]\<close> is a property
  read like any other: for a key the table does not have itself it gives what every
  object inherits under that name, if anything.
\<close>

definition METHODS :: object where
  "METHODS =
     [(''$ne'', JStr ''not''), (''$in'', JStr ''''), (''$nin'', JStr ''''), (''$or'', JStr ''or''),
      (''$and'', JStr ''and''), (''$lt'', JStr ''lt''), (''$lte'', JStr ''lte''),
      (''$gt'', JStr ''gt''), (''$gte'', JStr ''gte'')]"

text \<open>
  The test that sends a value into the nested branch: an object that is not a Date,
  not an array and not \<open>null\<close>.
\<close>

fun is_plain_object :: "jsval \<Rightarrow> bool" where
  "is_plain_object (JObj kvs) = True"
| "is_plain_object v = False"

text \<open>
  The last branch of the loop of \<open>redisQuery\<close>, for a key and a value on a column.
  With a truthy \<open>method\<close>: the not-equals form when it is the entry of \<open>$ne\<close>,
  otherwise the dynamic call \<open>search.where(column)[method](value)\<close>, which for a method
  that is not a string (an inherited member) evaluates \<open>search.where(column)\<close> and
  then throws a TypeError, the field having no such method. With a falsy \<open>method\<close>:
  the equality.
\<close>

definition operator_call :: "redis_repository \<Rightarrow> string \<Rightarrow> string \<Rightarrow> jsval \<Rightarrow> clause list \<Rightarrow> error + clause list" where
  "operator_call R column key value search =
     (let method = get_prop METHODS key in
      if truthy method then
        (if method = get_prop METHODS ''$ne'' then builder_call R (WhereNotEquals column value) search
         else
           (case method of
              JStr m \<Rightarrow> builder_call R (WhereCall column m value) search
            | _ \<Rightarrow>
                (case builder_throws R (WhereField column) of
                   Some e \<Rightarrow> Inl e
                 | None \<Rightarrow> Inl TypeError)))
      else builder_call R (WhereEquals column value) search)"

text \<open>The \<open>$sort\<close> branch: one \<open>sortBy\<close> call per key, ascending when the value is \<open>1\<close>.\<close>

fun sort_each :: "redis_repository \<Rightarrow> clause list \<Rightarrow> object \<Rightarrow> error + clause list" where
  "sort_each R search [] = Inr search"
| "sort_each R search ((sortKey, dir) # rest) =
     (case builder_call R (SortBy sortKey (if dir = JNum 1 then ASC else DESC)) search of
        Inl e \<Rightarrow> Inl e
      | Inr search' \<Rightarrow> sort_each R search' rest)"

definition sort_branch :: "redis_repository \<Rightarrow> clause list \<Rightarrow> jsval \<Rightarrow> error + clause list" where
  "sort_branch R search value =
     (case own_entries value of None \<Rightarrow> Inl TypeError | Some kvs \<Rightarrow> sort_each R search kvs)"

text \<open>A string given where a query is expected: \<open>for ... in\<close> visits its characters.\<close>

fun string_keys :: "redis_repository \<Rightarrow> clause list \<Rightarrow> object \<Rightarrow> error + clause list" where
  "string_keys R search [] = Inr search"
| "string_keys R search ((key, value) # rest) =
     (case operator_call R key key value search of
        Inl e \<Rightarrow> Inl e
      | Inr search' \<Rightarrow> string_keys R search' rest)"

text \<open>
  A value that is neither an object nor an array, given as an element of a \<open>$or\<close> or
  \<open>$and\<close> list: \<open>for ... in\<close> visits the characters of a string and nothing of the
  other values.
\<close>

definition primitive_item :: "redis_repository \<Rightarrow> clause list \<Rightarrow> jsval \<Rightarrow> error + clause list" where
  "primitive_item R search item =
     (case item of
        JStr s \<Rightarrow>
          (case string_keys R search (indexed 0 (map (\<lambda>c. JStr [c]) s)) of
             Inl e \<Rightarrow> Inl (rethrow e)
           | Inr search' \<Rightarrow> Inr search')
      | _ \<Rightarrow> Inr search)"

text \<open>
  \<open>redisQuery(search, query, parentKey)\<close>. \<open>query_keys\<close> is the \<open>for ... in\<close> loop
  over the remaining keys of an object and \<open>array_keys\<close> the same loop over an array
  given as an element of a \<open>$or\<close> or \<open>$and\<close> list; \<open>or_each\<close> and \<open>and_each\<close> are
  the two \<open>forEach\<close> loops. Every recursive call runs inside the \<open>try\<close>/\<open>catch\<close> of
  the called \<open>redisQuery\<close>, hence the \<open>rethrow\<close> at each of them. A sub-search starts
  empty and is attached to its parent by \<open>OrGroup\<close> or \<open>AndGroup\<close> when the callback
  returns.
\<close>

fun query_keys :: "redis_repository \<Rightarrow> clause list \<Rightarrow> object \<Rightarrow> string option \<Rightarrow> error + clause list"
  and array_keys :: "redis_repository \<Rightarrow> clause list \<Rightarrow> nat \<Rightarrow> jsval list \<Rightarrow> error + clause list"
  and or_each :: "redis_repository \<Rightarrow> clause list \<Rightarrow> jsval list \<Rightarrow> error + clause list"
  and and_each :: "redis_repository \<Rightarrow> clause list \<Rightarrow> jsval list \<Rightarrow> error + clause list"
where
  "query_keys R search [] parentKey = Inr search"
| "query_keys R search ((key, value) # rest) parentKey =
     (case
        (if key = ''$or'' then
           (case value of JArr items \<Rightarrow> or_each R search items | _ \<Rightarrow> Inl TypeError)
         else if key = ''$and'' then
           (case value of
              JArr items \<Rightarrow>
                (case and_each R [] items of
                   Inl e \<Rightarrow> Inl e
                 | Inr sub \<Rightarrow> builder_call R (AndGroup sub) search)
            | _ \<Rightarrow> Inl TypeError)
         else if key = ''$sort'' then sort_branch R search value
         else
           (case value of
              JObj kvs \<Rightarrow>
                (case query_keys R search kvs (Some key) of
                   Inl e \<Rightarrow> Inl (rethrow e)
                 | Inr search' \<Rightarrow> Inr search')
            | _ \<Rightarrow>
                operator_call R (case parentKey of Some p \<Rightarrow> p | None \<Rightarrow> key) key value
                  search))
      of
        Inl e \<Rightarrow> Inl e
      | Inr search' \<Rightarrow> query_keys R search' rest parentKey)"
| "array_keys R search i [] = Inr search"
| "array_keys R search i (value # rest) =
     (case
        (case value of
           JObj kvs \<Rightarrow>
             (case query_keys R search kvs (Some (index_key i)) of
                Inl e \<Rightarrow> Inl (rethrow e)
              | Inr search' \<Rightarrow> Inr search')
         | _ \<Rightarrow> operator_call R (index_key i) (index_key i) value search)
      of
        Inl e \<Rightarrow> Inl e
      | Inr search' \<Rightarrow> array_keys R search' (Suc i) rest)"
| "or_each R search [] = Inr search"
| "or_each R search (item # items) =
     (case
        (case item of
           JObj kvs \<Rightarrow>
             (case query_keys R [] kvs None of
                Inl e \<Rightarrow> Inl (rethrow e)
              | Inr sub \<Rightarrow> Inr sub)
         | JArr xs \<Rightarrow>
             (case array_keys R [] 0 xs of
                Inl e \<Rightarrow> Inl (rethrow e)
              | Inr sub \<Rightarrow> Inr sub)
         | _ \<Rightarrow> primitive_item R [] item)
      of
        Inl e \<Rightarrow> Inl e
      | Inr sub \<Rightarrow>
          (case builder_call R (OrGroup sub) search of
             Inl e \<Rightarrow> Inl e
           | Inr search' \<Rightarrow> or_each R search' items))"
| "and_each R sub [] = Inr sub"
| "and_each R sub (item # items) =
     (case
        (case item of
           JObj kvs \<Rightarrow>
             (case query_keys R sub kvs None of
                Inl e \<Rightarrow> Inl (rethrow e)
              | Inr sub' \<Rightarrow> Inr sub')
         | JArr xs \<Rightarrow>
             (case array_keys R sub 0 xs of
                Inl e \<Rightarrow> Inl (rethrow e)
              | Inr sub' \<Rightarrow> Inr sub')
         | _ \<Rightarrow> primitive_item R sub item)
      of
        Inl e \<Rightarrow> Inl e
      | Inr sub' \<Rightarrow> and_each R sub' items)"

definition redisQuery :: "redis_repository \<Rightarrow> clause list \<Rightarrow> object \<Rightarrow> string option \<Rightarrow> error + clause list" where
  "redisQuery R search query parentKey =
     (case query_keys R search query parentKey of
        Inl e \<Rightarrow> Inl (rethrow e)
      | Inr search' \<Rightarrow> Inr search')"

section \<open>The store\<close>

text \<open>
  An entity is what the repository hands out: the fields of the document and, under the
  symbol \<open>EntityId\<close> that \<open>Object.keys\<close> does not list, the key it is stored under.
\<close>

record entity =
  entityId :: string
  entity_fields :: object

text \<open>
  The world the adapter acts on: the documents of the store by key, the round trips
  issued so far (oldest first), and the number of identifiers drawn from
  \<open>randomUUID\<close>. Expiry is kept by the store; the adapter's part in it is the
  \<open>Expire\<close> round trip, which the log records.
\<close>

record world =
  docs :: "(string \<times> object) list"
  log :: "command list"
  draws :: nat

type_synonym 'a outcome = "world \<times> (error + 'a)"

definition bind :: "'a outcome \<Rightarrow> (world \<Rightarrow> 'a \<Rightarrow> 'b outcome) \<Rightarrow> 'b outcome" where
  "bind m f = (case m of (w, Inl e) \<Rightarrow> (w, Inl e) | (w, Inr x) \<Rightarrow> f w x)"

definition catch_rethrow :: "'a outcome \<Rightarrow> 'a outcome" where
  "catch_rethrow m = (case m of (w, Inl e) \<Rightarrow> (w, Inl (rethrow e)) | (w, Inr x) \<Rightarrow> (w, Inr x))"

text \<open>A round trip is logged when it is issued; it then fails or takes effect.\<close>

definition round_trip :: "redis_repository \<Rightarrow> world \<Rightarrow> command \<Rightarrow> (world \<Rightarrow> world \<times> 'a) \<Rightarrow> 'a outcome" where
  "round_trip R w c effect =
     (let w' = w\<lparr>log := log w @ [c]\<rparr> in
      case fault R c of
        Some e \<Rightarrow> (w', Inl e)
      | None \<Rightarrow> (case effect w' of (w'', x) \<Rightarrow> (w'', Inr x)))"

text \<open>\<open>repository.fetch(id)\<close>: a missing key gives an entity without fields.\<close>

definition repo_fetch :: "redis_repository \<Rightarrow> world \<Rightarrow> string \<Rightarrow> entity outcome" where
  "repo_fetch R w key =
     round_trip R w (Fetch key)
       (\<lambda>w'. (w', \<lparr>entityId = key,
                    entity_fields = (case map_of (docs w') key of None \<Rightarrow> [] | Some d \<Rightarrow> d)\<rparr>))"

text \<open>\<open>repository.save(id, entity)\<close> and \<open>repository.save(entity)\<close>: the document is overwritten.\<close>

definition repo_save :: "redis_repository \<Rightarrow> world \<Rightarrow> string \<Rightarrow> object \<Rightarrow> entity outcome" where
  "repo_save R w key obj =
     round_trip R w (Save key obj)
       (\<lambda>w'. (w'\<lparr>docs := AList.update key obj (docs w')\<rparr>, \<lparr>entityId = key, entity_fields = obj\<rparr>))"

definition repo_save_entity :: "redis_repository \<Rightarrow> world \<Rightarrow> entity \<Rightarrow> entity outcome" where
  "repo_save_entity R w ent = repo_save R w (entityId ent) (entity_fields ent)"

definition repo_remove :: "redis_repository \<Rightarrow> world \<Rightarrow> string \<Rightarrow> unit outcome" where
  "repo_remove R w key =
     round_trip R w (Remove key) (\<lambda>w'. (w'\<lparr>docs := AList.delete key (docs w')\<rparr>, ()))"

definition repo_expire :: "redis_repository \<Rightarrow> world \<Rightarrow> jsval \<Rightarrow> int \<Rightarrow> unit outcome" where
  "repo_expire R w key seconds = round_trip R w (Expire key seconds) (\<lambda>w'. (w', ()))"

text \<open>
  The three ways a built search is run: \<open>search.return.all()\<close>,
  \<open>search.page(offset, count)\<close> and \<open>search.count()\<close>. A page is the window of
  \<open>count\<close> results from \<open>offset\<close> on.
\<close>

definition found :: "redis_repository \<Rightarrow> world \<Rightarrow> clause list \<Rightarrow> entity list" where
  "found R w search = map (\<lambda>(k, d). \<lparr>entityId = k, entity_fields = d\<rparr>) (run R search (docs w))"

fun window_size :: "number \<Rightarrow> nat" where
  "window_size NaN = 0"
| "window_size (Number n) = nat n"

definition search_return_all :: "redis_repository \<Rightarrow> world \<Rightarrow> clause list \<Rightarrow> entity list outcome" where
  "search_return_all R w search = round_trip R w (ReturnAll search) (\<lambda>w'. (w', found R w' search))"

definition search_page :: "redis_repository \<Rightarrow> world \<Rightarrow> clause list \<Rightarrow> number \<Rightarrow> number \<Rightarrow> entity list outcome" where
  "search_page R w search offset cnt =
     round_trip R w (ReturnPage search offset cnt)
       (\<lambda>w'. (w', take (window_size cnt) (drop (window_size offset) (found R w' search))))"

definition search_count :: "redis_repository \<Rightarrow> world \<Rightarrow> clause list \<Rightarrow> nat outcome" where
  "search_count R w search =
     round_trip R w (ReturnCount search) (\<lambda>w'. (w', length (found R w' search)))"

section \<open>Options, parameters and the adapter\<close>

record pagination =
  page_default :: "number option"
  page_max :: "number option"

text \<open>
  The options of the service: the name of the identity field, the pagination settings
  (\<open>None\<close> for \<open>false\<close> or \<open>undefined\<close>) and the operations allowed on several records.
\<close>

record options =
  id_field :: "string option"
  opt_paginate :: "pagination option"
  multi :: "string list"

datatype paginate_param = PaginateUndefined | PaginateFalse | PaginateOptions pagination

text \<open>
  A query as \<open>AdapterQuery\<close> types it: the four reserved keys and the remaining keys in
  their order.
\<close>

record adapter_query =
  q_select :: "string list option"
  q_sort :: "object option"
  q_limit :: "number option"
  q_skip :: "number option"
  q_rest :: object

text \<open>
  The parameters of a call. \<open>refreshExpiration\<close> is the option of the documentation
  and of the tests; a call may carry it like any other key.
\<close>

record params =
  p_query :: "adapter_query option"
  p_paginate :: paginate_param
  refreshExpiration :: jsval

text \<open>
  The adapter object: its repository, its \<open>expiration\<close> and its options.
  \<open>getOptions\<close> and \<open>getLimit\<close> belong to the framework's base class and helpers,
  which are not part of this repository, and \<open>randomUUID\<close> to the platform: they are
  taken as they come, \<open>randomUUID\<close> as the sequence of identifiers it gives.
\<close>

record adapter =
  repository :: redis_repository
  expiration :: "int option"
  service_options :: options
  getOptions :: "params \<Rightarrow> options"
  getLimit :: "number option \<Rightarrow> pagination option \<Rightarrow> number"
  randomUUID :: "nat \<Rightarrow> string"

text \<open>
  Modelled from the spec: \<open>allowsMulti\<close> of the framework's base class, which is not
  part of this repository. The multi allow-list names the operations that may take
  several records in one call; the check is membership in that list, against the options
  of the call.
\<close>

definition allowsMulti :: "adapter \<Rightarrow> string \<Rightarrow> params \<Rightarrow> bool" where
  "allowsMulti a method ps = (method \<in> set (multi (getOptions a ps)))"

record filters =
  f_select :: "string list option"
  f_sort :: "object option"
  f_limit :: number
  f_skip :: number

record filtered =
  fq_paginate :: "pagination option"
  fq_filters :: filters
  fq_query :: object

definition empty_query :: adapter_query where
  "empty_query = \<lparr>q_select = None, q_sort = None, q_limit = None, q_skip = None, q_rest = []\<rparr>"

definition filterQuery :: "adapter \<Rightarrow> params \<Rightarrow> filtered" where
  "filterQuery a ps =
     (let opts = getOptions a ps;
          q = (case p_query ps of None \<Rightarrow> empty_query | Some q \<Rightarrow> q);
          skip = (case q_skip q of None \<Rightarrow> Number 0 | Some n \<Rightarrow> n);
          limit = getLimit a (q_limit q) (opt_paginate opts)
      in \<lparr>fq_paginate = opt_paginate opts,
          fq_filters = \<lparr>f_select = q_select q, f_sort = q_sort q, f_limit = limit, f_skip = skip\<rparr>,
          fq_query = q_rest q\<rparr>)"

text \<open>
  The \<open>$select\<close> loop: a key is deleted when it is not selected and is not the identity
  field. Without \<open>$select\<close> nothing is deleted.
\<close>

definition select_fields :: "string list \<Rightarrow> string option \<Rightarrow> object \<Rightarrow> object" where
  "select_fields sel idField obj =
     filter (\<lambda>(key, v). \<not> (key \<notin> set sel \<and> Some key \<noteq> idField)) obj"

definition apply_select :: "string list option \<Rightarrow> string option \<Rightarrow> entity \<Rightarrow> entity" where
  "apply_select sel idField ent =
     (case sel of None \<Rightarrow> ent | Some s \<Rightarrow> ent\<lparr>entity_fields := select_fields s idField (entity_fields ent)\<rparr>)"

section \<open>The operations of the adapter\<close>

text \<open>
  \<open>adapter_find\<close>, \<open>adapter_get\<close>, \<open>adapter_create\<close>, \<open>adapter_patch\<close>,
  \<open>adapter_update\<close> and \<open>adapter_remove\<close> are the methods \<open>_find\<close>, \<open>_get\<close>,
  \<open>_create\<close>, \<open>_patch\<close>, \<open>_update\<close> and \<open>_remove\<close> of \<open>RedisAdapter\<close>;
  \<open>service_create\<close> is \<open>create\<close> of \<open>RedisService\<close>.
\<close>

definition expire :: "adapter \<Rightarrow> world \<Rightarrow> string + entity \<Rightarrow> int \<Rightarrow> unit outcome" where
  "expire a w key seconds =
     (let key' =
        (case key of
           Inl s \<Rightarrow> JStr s
         | Inr ent \<Rightarrow>
             (case id_field (service_options a) of
                None \<Rightarrow> JUndefined
              | Some f \<Rightarrow> get_prop (entity_fields ent) f))
      in repo_expire (repository a) w key' seconds)"

datatype find_result =
    Results "entity list"
  | Paginated nat number number "entity list"

fun result_data :: "find_result \<Rightarrow> entity list" where
  "result_data (Results es) = es"
| "result_data (Paginated n lim sk es) = es"

definition paginationDisabled :: "params \<Rightarrow> pagination option \<Rightarrow> bool" where
  "paginationDisabled ps paginate =
     (p_paginate ps = PaginateFalse \<or>
      (case paginate of
         None \<Rightarrow> True
       | Some pg \<Rightarrow> (case page_default pg of None \<Rightarrow> True | Some d \<Rightarrow> \<not> truthy_number d)))"

text \<open>The search of \<open>_find\<close> as built before it is run: the query, then \<open>params.query.$sort\<close>.\<close>

definition find_search :: "adapter \<Rightarrow> params \<Rightarrow> error + clause list" where
  "find_search a ps =
     (case (if fq_query (filterQuery a ps) \<noteq> []
            then redisQuery (repository a) [] (fq_query (filterQuery a ps)) None
            else Inr [])
      of
        Inl e \<Rightarrow> Inl e
      | Inr search \<Rightarrow>
          (case p_query ps of
             None \<Rightarrow> Inl TypeError
           | Some q \<Rightarrow>
               (case q_sort q of
                  None \<Rightarrow> Inr search
                | Some srt \<Rightarrow> sort_each (repository a) search srt)))"

definition adapter_find :: "adapter \<Rightarrow> world \<Rightarrow> params \<Rightarrow> find_result outcome" where
  "adapter_find a w ps =
     catch_rethrow
       (let R = repository a;
            fq = filterQuery a ps;
            flt = fq_filters fq;
            idField = id_field (getOptions a ps)
        in case find_search a ps of
             Inl e \<Rightarrow> (w, Inl e)
           | Inr search \<Rightarrow>
               if paginationDisabled ps (fq_paginate fq) then
                 (if truthy_number (f_limit flt) \<and> \<not> truthy_number (f_skip flt) then
                    bind (search_page R w search (Number 0) (f_limit flt))
                      (\<lambda>w results. (w, Inr (Results (map (apply_select (f_select flt) idField) results))))
                  else if truthy_number (f_limit flt) \<and> truthy_number (f_skip flt) then
                    bind (search_page R w search (f_skip flt) (f_limit flt))
                      (\<lambda>w results. (w, Inr (Results (map (apply_select (f_select flt) idField) results))))
                  else if \<not> truthy_number (f_limit flt) \<and> truthy_number (f_skip flt) then
                    bind (search_count R w search)
                      (\<lambda>w n. bind (search_page R w search (f_skip flt) (Number (int n)))
                         (\<lambda>w results. (w, Inr (Results (map (apply_select (f_select flt) idField) results)))))
                  else if f_limit flt = Number 0 then (w, Inr (Results []))
                  else
                    bind (search_return_all R w search)
                      (\<lambda>w results. (w, Inr (Results (map (apply_select (f_select flt) idField) results)))))
               else
                 bind (search_page R w search (f_skip flt) (f_limit flt))
                   (\<lambda>w results. bind (search_count R w search)
                      (\<lambda>w n. (w, Inr (Paginated n (f_limit flt) (f_skip flt) results)))))"

text \<open>
  The lookup shared by \<open>_get\<close> and \<open>_update\<close> when the query has keys: the query,
  then the identity clause, then all results; no result is \<open>NotFound\<close>, otherwise
  the first one is taken. \<open>NotFound\<close> carries the id of its message.
\<close>

definition lookup_by_query :: "adapter \<Rightarrow> world \<Rightarrow> string \<Rightarrow> params \<Rightarrow> entity outcome" where
  "lookup_by_query a w ident ps =
     (case redisQuery (repository a) [] (fq_query (filterQuery a ps)) None of
        Inl e \<Rightarrow> (w, Inl e)
      | Inr search \<Rightarrow>
          (case builder_call (repository a) (AndEq (id_field (getOptions a ps)) ident) search of
             Inl e \<Rightarrow> (w, Inl e)
           | Inr search' \<Rightarrow>
               bind (search_return_all (repository a) w search')
                 (\<lambda>w results.
                    case results of
                      [] \<Rightarrow> (w, Inl (NotFound ident))
                    | first # _ \<Rightarrow> (w, Inr first))))"

text \<open>The test \<open>idField && !entity[idField]\<close>.\<close>

definition identity_missing :: "string option \<Rightarrow> entity \<Rightarrow> bool" where
  "identity_missing idField ent =
     (case idField of
        None \<Rightarrow> False
      | Some f \<Rightarrow> f \<noteq> [] \<and> \<not> truthy (get_prop (entity_fields ent) f))"

definition get_body :: "adapter \<Rightarrow> world \<Rightarrow> string \<Rightarrow> params \<Rightarrow> entity outcome" where
  "get_body a w ident ps =
     (let idField = id_field (getOptions a ps);
          fq = filterQuery a ps
      in bind (if fq_query fq \<noteq> [] then lookup_by_query a w ident ps
               else repo_fetch (repository a) w ident)
           (\<lambda>w ent.
              if identity_missing idField ent then (w, Inl (NotFound ident))
              else (w, Inr (apply_select (f_select (fq_filters fq)) idField ent))))"

definition adapter_get :: "adapter \<Rightarrow> world \<Rightarrow> string \<Rightarrow> params \<Rightarrow> entity outcome" where
  "adapter_get a w ident ps =
     (case get_body a w ident ps of
        (w', Inl e) \<Rightarrow> (w', Inl (NotFound ident))
      | (w', Inr ent) \<Rightarrow> (w', Inr ent))"

text \<open>
  The object literal of \<open>_create\<close>: the identity field set to the fresh identifier, then
  the payload spread over it.
\<close>

definition new_record :: "string option \<Rightarrow> string \<Rightarrow> object \<Rightarrow> object" where
  "new_record idField uuid item =
     assign [(case idField of None \<Rightarrow> ''entityId'' | Some f \<Rightarrow> f, JStr uuid)] item"

text \<open>
  The \<open>map\<close> of the list branch: every callback draws its identifier and issues its
  save before any of them is awaited, so a save that fails does not stop the others.
\<close>

fun save_each :: "adapter \<Rightarrow> string option \<Rightarrow> world \<Rightarrow> object list \<Rightarrow> world \<times> (error + entity) list" where
  "save_each a idField w [] = (w, [])"
| "save_each a idField w (item # items) =
     (let uuid = randomUUID a (draws w);
          (w1, r) = repo_save (repository a) (w\<lparr>draws := Suc (draws w)\<rparr>) uuid (new_record idField uuid item);
          (w2, rs) = save_each a idField w1 items
      in (w2, r # rs))"

text \<open>\<open>Promise.all\<close>: the values in order, or the error of the first promise of the list that failed.\<close>

fun promise_all :: "(error + 'a) list \<Rightarrow> error + 'a list" where
  "promise_all [] = Inr []"
| "promise_all (Inl e # rs) = Inl e"
| "promise_all (Inr x # rs) = (case promise_all rs of Inl e \<Rightarrow> Inl e | Inr xs \<Rightarrow> Inr (x # xs))"

datatype 'a one_or_many = One 'a | Many "'a list"

definition adapter_create :: "adapter \<Rightarrow> world \<Rightarrow> object one_or_many \<Rightarrow> params \<Rightarrow> entity one_or_many outcome" where
  "adapter_create a w data ps =
     catch_rethrow
       (let idField = id_field (getOptions a ps);
            flt = fq_filters (filterQuery a ps)
        in case data of
             Many items \<Rightarrow>
               (case save_each a idField w items of
                  (w', rs) \<Rightarrow>
                    (case promise_all rs of
                       Inl e \<Rightarrow> (w', Inl e)
                     | Inr results \<Rightarrow> (w', Inr (Many (map (apply_select (f_select flt) idField) results)))))
           | One item \<Rightarrow>
               (let uuid = randomUUID a (draws w) in
                bind (repo_save (repository a) (w\<lparr>draws := Suc (draws w)\<rparr>) uuid (new_record idField uuid item))
                  (\<lambda>w saved.
                     let ent = apply_select (f_select flt) idField saved in
                     case expiration a of
                       None \<Rightarrow> (w, Inr (One ent))
                     | Some seconds \<Rightarrow>
                         if seconds \<noteq> 0 then
                           bind (expire a w (Inr ent) seconds) (\<lambda>w u. (w, Inr (One ent)))
                         else (w, Inr (One ent)))))"

definition adapter_patch :: "adapter \<Rightarrow> world \<Rightarrow> string option \<Rightarrow> object \<Rightarrow> params \<Rightarrow> entity outcome" where
  "adapter_patch a w ident data ps =
     catch_rethrow
       (case ident of
          None \<Rightarrow> (w, Inl (MethodNotAllowed ''Cannot patch multiple entries without an ID''))
        | Some i \<Rightarrow>
            bind (adapter_get a w i ps)
              (\<lambda>w ent.
                 let ent' = ent\<lparr>entity_fields := assign (entity_fields ent) data\<rparr> in
                 bind (repo_save_entity (repository a) w ent') (\<lambda>w saved. (w, Inr ent'))))"

definition adapter_update :: "adapter \<Rightarrow> world \<Rightarrow> string option \<Rightarrow> object \<Rightarrow> params \<Rightarrow> entity outcome" where
  "adapter_update a w ident data ps =
     catch_rethrow
       (case ident of
          None \<Rightarrow> (w, Inl (BadRequest ''You must provide an ID to update an entry''))
        | Some i \<Rightarrow>
            (let idField = id_field (getOptions a ps);
                 fq = filterQuery a ps
             in bind (if fq_query fq \<noteq> [] then lookup_by_query a w i ps
                      else bind (repo_fetch (repository a) w i)
                             (\<lambda>w ent. if identity_missing idField ent then (w, Inl (NotFound i))
                                       else (w, Inr ent)))
                  (\<lambda>w existing.
                     bind (repo_save (repository a) w i data)
                       (\<lambda>w saved. (w, Inr (apply_select (f_select (fq_filters fq)) idField saved))))))"

definition adapter_remove :: "adapter \<Rightarrow> world \<Rightarrow> string option \<Rightarrow> params \<Rightarrow> entity outcome" where
  "adapter_remove a w ident ps =
     catch_rethrow
       (case ident of
          None \<Rightarrow> (w, Inl (MethodNotAllowed ''Cannot remove multiple entries without an ID''))
        | Some i \<Rightarrow>
            bind (adapter_get a w i ps)
              (\<lambda>w ent. bind (repo_remove (repository a) w i) (\<lambda>w u. (w, Inr ent))))"

definition service_create :: "adapter \<Rightarrow> world \<Rightarrow> object one_or_many \<Rightarrow> params \<Rightarrow> entity one_or_many outcome" where
  "service_create a w data ps =
     (if (case data of Many items \<Rightarrow> True | One item \<Rightarrow> False) \<and> \<not> allowsMulti a ''create'' ps
      then (w, Inl (MethodNotAllowed ''Can not create multiple entries''))
      else adapter_create a w data ps)"

section \<open>A service for the examples\<close>

text \<open>
  The service of the test suite: identity field \<open>uuid\<close>, a store that never fails, a
  search engine that understands the equality clauses, identifiers \<open>id-0\<close>,
  \<open>id-1\<close>, ..., and a \<open>getLimit\<close> that gives the limit of the query and, without
  one, the default page size.
\<close>

fun clause_holds :: "object \<Rightarrow> clause \<Rightarrow> bool" where
  "clause_holds d (WhereEquals column v) = (get_prop d column = v)"
| "clause_holds d (WhereNotEquals column v) = (get_prop d column \<noteq> v)"
| "clause_holds d (AndEq (Some f) i) = (get_prop d f = JStr i)"
| "clause_holds d c = True"

definition plain_repository :: redis_repository where
  "plain_repository =
     \<lparr>builder_throws = (\<lambda>c. None),
      fault = (\<lambda>c. None),
      run = (\<lambda>search ds. filter (\<lambda>(k, d). list_all (clause_holds d) search) ds)\<rparr>"

definition plain_getLimit :: "number option \<Rightarrow> pagination option \<Rightarrow> number" where
  "plain_getLimit l pg =
     (case l of
        Some n \<Rightarrow> n
      | None \<Rightarrow>
          (case pg of
             None \<Rightarrow> NaN
           | Some p \<Rightarrow> (case page_default p of None \<Rightarrow> NaN | Some d \<Rightarrow> d)))"

definition people_options :: options where
  "people_options = \<lparr>id_field = Some ''uuid'', opt_paginate = None, multi = []\<rparr>"

definition people_service :: "redis_repository \<Rightarrow> int option \<Rightarrow> options \<Rightarrow> adapter" where
  "people_service R seconds opts =
     \<lparr>repository = R,
      expiration = seconds,
      service_options = opts,
      getOptions = (\<lambda>ps. opts),
      getLimit = plain_getLimit,
      randomUUID = (\<lambda>n. ''id-'' @ index_key n)\<rparr>"

definition ann :: object where
  "ann = [(''uuid'', JStr ''u1''), (''name'', JStr ''Ann''), (''age'', JNum 25), (''friends'', JArr [])]"

definition people_world :: world where
  "people_world = \<lparr>docs = [(''u1'', ann)], log = [], draws = 0\<rparr>"

definition plain_params :: params where
  "plain_params = \<lparr>p_query = Some empty_query, p_paginate = PaginateUndefined, refreshExpiration = JUndefined\<rparr>"

text \<open>The saves a list of payloads gives rise to, the first one under the \<open>n\<close>-th identifier.\<close>

fun saves_from :: "adapter \<Rightarrow> string option \<Rightarrow> nat \<Rightarrow> object list \<Rightarrow> command list" where
  "saves_from a idField n [] = []"
| "saves_from a idField n (item # items) =
     Save (randomUUID a n) (new_record idField (randomUUID a n) item) # saves_from a idField (Suc n) items"

fun is_expire :: "command \<Rightarrow> bool" where
  "is_expire (Expire key seconds) = True"
| "is_expire c = False"

text \<open>
  What a list of payloads is expected to become when every save succeeds: the entities
  handed back, and the documents of the store.
\<close>

fun created_from :: "adapter \<Rightarrow> string option \<Rightarrow> nat \<Rightarrow> object list \<Rightarrow> entity list" where
  "created_from a idField n [] = []"
| "created_from a idField n (item # items) =
     \<lparr>entityId = randomUUID a n, entity_fields = new_record idField (randomUUID a n) item\<rparr>
       # created_from a idField (Suc n) items"

fun stored_after :: "adapter \<Rightarrow> string option \<Rightarrow> nat \<Rightarrow> object list \<Rightarrow> (string \<times> object) list \<Rightarrow> (string \<times> object) list" where
  "stored_after a idField n [] ds = ds"
| "stored_after a idField n (item # items) ds =
     stored_after a idField (Suc n) items
       (AList.update (randomUUID a n) (new_record idField (randomUUID a n) item) ds)"

text \<open>A store whose every round trip fails with a connection error, and a query on the name.\<close>

definition failing_repository :: redis_repository where
  "failing_repository = plain_repository\<lparr>fault := (\<lambda>c. Some (OtherError ''ECONNRESET''))\<rparr>"

definition by_name :: "string \<Rightarrow> params" where
  "by_name n = plain_params\<lparr>p_query := Some (empty_query\<lparr>q_rest := [(''name'', JStr n)]\<rparr>)\<rparr>"

text \<open>
  The same service with pagination switched on, a query with \<open>$limit: 0\<close>, a call
  with \<open>refreshExpiration: true\<close>, and a call with a \<open>$select\<close>.
\<close>

definition paged_options :: options where
  "paged_options = people_options\<lparr>opt_paginate := Some \<lparr>page_default = Some (Number 10), page_max = None\<rparr>\<rparr>"

definition limit_zero :: params where
  "limit_zero = plain_params\<lparr>p_query := Some (empty_query\<lparr>q_limit := Some (Number 0)\<rparr>)\<rparr>"

definition refreshing :: params where
  "refreshing = plain_params\<lparr>refreshExpiration := JBool True\<rparr>"

definition selecting :: "string list \<Rightarrow> params" where
  "selecting sel = plain_params\<lparr>p_query := Some (empty_query\<lparr>q_select := Some sel\<rparr>)\<rparr>"

section \<open>Evaluation rules\<close>

lemmas store_defs = round_trip_def repo_fetch_def repo_save_def repo_save_entity_def repo_remove_def
  repo_expire_def search_return_all_def search_page_def search_count_def found_def bind_def
  catch_rethrow_def

lemmas example_defs = plain_repository_def plain_getLimit_def people_options_def people_service_def
  ann_def people_world_def plain_params_def empty_query_def filterQuery_def failing_repository_def
  by_name_def paged_options_def limit_zero_def refreshing_def selecting_def

lemma get_prop_METHODS [simp]:
  "get_prop METHODS ''$ne'' = JStr ''not''"
  "get_prop METHODS ''$in'' = JStr []"
  "get_prop METHODS ''$nin'' = JStr []"
  "get_prop METHODS ''$lt'' = JStr ''lt''"
  "get_prop METHODS ''$lte'' = JStr ''lte''"
  "get_prop METHODS ''$gt'' = JStr ''gt''"
  "get_prop METHODS ''$gte'' = JStr ''gte''"
  by (simp_all add: METHODS_def get_prop_def)

section \<open>Query translation: the operators\<close>

text \<open>
  C3. The claim: a filter with a membership operator (\<open>$in\<close>, \<open>$nin\<close>) fails fast
  with a "not implemented" error and is never translated into another predicate, in
  particular not into an equality on the list. The code at \<open>{age: {$in: [1, 2]}}\<close> and
  at \<open>{age: {$nin: [1, 2]}}\<close>: the entry of \<open>METHODS\<close> is the empty string, which is
  falsy, so the key takes the branch of the unknown keys and the translation returns
  normally with an equality between the field and the list.
\<close>

theorem membership_operator_becomes_equality:
  "redisQuery plain_repository [] [(''age'', JObj [(''$in'', JArr [JNum 1, JNum 2])])] None
     = Inr [WhereEquals ''age'' (JArr [JNum 1, JNum 2])]
   \<and> redisQuery plain_repository [] [(''age'', JObj [(''$nin'', JArr [JNum 1, JNum 2])])] None
     = Inr [WhereEquals ''age'' (JArr [JNum 1, JNum 2])]"
  by (simp add: redisQuery_def builder_call_def operator_call_def plain_repository_def)

section \<open>Guards before any store access\<close>

text \<open>
  C9. A patch with a null id and a remove with a null id fail with MethodNotAllowed, and
  so does the create of the service on a list when \<open>create\<close> is not in the multi
  allow-list; in all three cases the world is returned as it was: no round trip has been
  issued and no document has changed.
\<close>

theorem null_id_and_multi_rejected:
  "adapter_patch a w None data ps
     = (w, Inl (MethodNotAllowed ''Cannot patch multiple entries without an ID''))
   \<and> adapter_remove a w None ps
     = (w, Inl (MethodNotAllowed ''Cannot remove multiple entries without an ID''))
   \<and> (\<not> allowsMulti a ''create'' ps \<longrightarrow>
        service_create a w (Many items) ps
          = (w, Inl (MethodNotAllowed ''Can not create multiple entries'')))"
  by (simp add: adapter_patch_def adapter_remove_def service_create_def catch_rethrow_def)

theorem null_id_and_multi_rejected_witness:
  "\<not> allowsMulti (people_service plain_repository None people_options) ''create'' plain_params
   \<and> service_create (people_service plain_repository None people_options) people_world
        (Many [[(''name'', JStr ''B1'')], [(''name'', JStr ''B2'')]]) plain_params
      = (people_world, Inl (MethodNotAllowed ''Can not create multiple entries''))
   \<and> adapter_patch (people_service plain_repository None people_options) people_world None
        [(''age'', JNum 26)] plain_params
      = (people_world, Inl (MethodNotAllowed ''Cannot patch multiple entries without an ID''))
   \<and> adapter_remove (people_service plain_repository None people_options) people_world None
        plain_params
      = (people_world, Inl (MethodNotAllowed ''Cannot remove multiple entries without an ID''))"
proof -
  have h: "\<not> allowsMulti (people_service plain_repository None people_options) ''create'' plain_params"
    by (simp add: allowsMulti_def people_service_def people_options_def)
  show ?thesis
    using h null_id_and_multi_rejected [of "people_service plain_repository None people_options"
        people_world "[(''age'', JNum 26)]" plain_params
        "[[(''name'', JStr ''B1'')], [(''name'', JStr ''B2'')]]"]
    by simp
qed

text \<open>
  One key of a query at a time: what \<open>redisQuery\<close> does with the first key, and that
  it goes on with the remaining keys on the search so extended.
\<close>

lemma rethrow_idem: "rethrow (rethrow e) = rethrow e"
  by (cases e) (simp_all add: errorHandler_def)

lemma redisQuery_Nil: "redisQuery R search [] pk = Inr search"
  by (simp add: redisQuery_def)

lemma redisQuery_operator_step:
  assumes "\<not> is_plain_object v" and "key \<notin> {''$or'', ''$and'', ''$sort''}"
  shows "redisQuery R search ((key, v) # rest) pk
     = (case operator_call R (case pk of Some p \<Rightarrow> p | None \<Rightarrow> key) key v search of
          Inl e \<Rightarrow> Inl (rethrow e)
        | Inr search' \<Rightarrow> redisQuery R search' rest pk)"
  using assms by (cases v) (simp_all add: redisQuery_def split: sum.splits)

lemma redisQuery_nested_step:
  assumes "f \<notin> {''$or'', ''$and'', ''$sort''}"
  shows "redisQuery R search ((f, JObj kvs) # rest) pk
     = (case redisQuery R search kvs (Some f) of
          Inl e \<Rightarrow> Inl e
        | Inr search' \<Rightarrow> redisQuery R search' rest pk)"
  using assms by (simp add: redisQuery_def rethrow_idem split: sum.splits)

text \<open>
  The dispatch on the operator, in a query of any length: a field paired with \<open>$ne\<close>
  adds the not-equals form of the builder, a field paired with \<open>$lt\<close>, \<open>$lte\<close>,
  \<open>$gt\<close> or \<open>$gte\<close> adds the method the table names, and a key for which the read
  of \<open>METHODS\<close> gives \<open>undefined\<close> adds an equality on its column; the translation
  then continues with the rest of the query. In each case the value is not a plain
  object, the field is not a reserved key, and the builder accepts the call.
\<close>

lemma operator_dispatch:
  "(f \<notin> {''$or'', ''$and'', ''$sort''} \<and> \<not> is_plain_object v
      \<and> builder_throws R (WhereNotEquals f v) = None \<longrightarrow>
      redisQuery R search ((f, JObj [(''$ne'', v)]) # rest) pk
        = redisQuery R (search @ [WhereNotEquals f v]) rest pk)
   \<and> (f \<notin> {''$or'', ''$and'', ''$sort''} \<and> \<not> is_plain_object v
      \<and> oper \<in> {''$lt'', ''$lte'', ''$gt'', ''$gte''} \<and> get_prop METHODS oper = JStr method
      \<and> builder_throws R (WhereCall f method v) = None \<longrightarrow>
      redisQuery R search ((f, JObj [(oper, v)]) # rest) pk
        = redisQuery R (search @ [WhereCall f method v]) rest pk)
   \<and> (get_prop METHODS key = JUndefined \<and> key \<noteq> ''$sort'' \<and> \<not> is_plain_object v
      \<and> builder_throws R (WhereEquals (case pk of Some p \<Rightarrow> p | None \<Rightarrow> key) v) = None \<longrightarrow>
      redisQuery R search ((key, v) # rest) pk
        = redisQuery R (search @ [WhereEquals (case pk of Some p \<Rightarrow> p | None \<Rightarrow> key) v]) rest pk)"
proof (intro conjI impI)
  assume h: "f \<notin> {''$or'', ''$and'', ''$sort''} \<and> \<not> is_plain_object v
      \<and> builder_throws R (WhereNotEquals f v) = None"
  then have "redisQuery R search [(''$ne'', v)] (Some f) = Inr (search @ [WhereNotEquals f v])"
    by (simp add: redisQuery_operator_step redisQuery_Nil operator_call_def builder_call_def)
  with h show "redisQuery R search ((f, JObj [(''$ne'', v)]) # rest) pk
        = redisQuery R (search @ [WhereNotEquals f v]) rest pk"
    by (simp add: redisQuery_nested_step)
next
  assume h: "f \<notin> {''$or'', ''$and'', ''$sort''} \<and> \<not> is_plain_object v
      \<and> oper \<in> {''$lt'', ''$lte'', ''$gt'', ''$gte''} \<and> get_prop METHODS oper = JStr method
      \<and> builder_throws R (WhereCall f method v) = None"
  then have m: "method \<noteq> [] \<and> method \<noteq> ''not''"
    by auto
  from h have k: "oper \<notin> {''$or'', ''$and'', ''$sort''}"
    by auto
  from h m have "operator_call R f oper v search = Inr (search @ [WhereCall f method v])"
    by (simp add: operator_call_def builder_call_def)
  with h k have "redisQuery R search [(oper, v)] (Some f) = Inr (search @ [WhereCall f method v])"
    by (simp add: redisQuery_operator_step redisQuery_Nil)
  with h show "redisQuery R search ((f, JObj [(oper, v)]) # rest) pk
        = redisQuery R (search @ [WhereCall f method v]) rest pk"
    by (simp add: redisQuery_nested_step)
next
  assume h: "get_prop METHODS key = JUndefined \<and> key \<noteq> ''$sort'' \<and> \<not> is_plain_object v
      \<and> builder_throws R (WhereEquals (case pk of Some p \<Rightarrow> p | None \<Rightarrow> key) v) = None"
  then have k: "key \<notin> {''$or'', ''$and'', ''$sort''}"
    by (auto simp: METHODS_def get_prop_def)
  from h show "redisQuery R search ((key, v) # rest) pk
        = redisQuery R (search @ [WhereEquals (case pk of Some p \<Rightarrow> p | None \<Rightarrow> key) v]) rest pk"
    by (simp add: redisQuery_operator_step [OF _ k] operator_call_def builder_call_def)
qed

lemma operator_dispatch_example:
  "redisQuery plain_repository []
     [(''name'', JStr ''Ann''), (''age'', JObj [(''$ne'', JNum 25)]), (''age'', JObj [(''$gte'', JNum 18)])] None
   = Inr [WhereEquals ''name'' (JStr ''Ann''), WhereNotEquals ''age'' (JNum 25),
          WhereCall ''age'' ''gte'' (JNum 18)]"
proof -
  have n: "get_prop METHODS ''name'' = JUndefined"
    by (simp add: get_prop_def METHODS_def inherited_members_def)
  show ?thesis
    using n
      operator_dispatch [of "''age''" "JNum 25" plain_repository "[WhereEquals ''name'' (JStr ''Ann'')]"
        "[(''age'', JObj [(''$gte'', JNum 18)])]" None "''$gte''" "''gte''" "''name''"]
      operator_dispatch [of "''age''" "JNum 18" plain_repository
        "[WhereEquals ''name'' (JStr ''Ann''), WhereNotEquals ''age'' (JNum 25)]"
        "[]" None "''$gte''" "''gte''" "''name''"]
      operator_dispatch [of "''age''" "JStr ''Ann''" plain_repository "[]"
        "[(''age'', JObj [(''$ne'', JNum 25)]), (''age'', JObj [(''$gte'', JNum 18)])]" None
        "''$gte''" "''gte''" "''name''"]
    by (simp add: plain_repository_def redisQuery_Nil)
qed

text \<open>
  C8. The claim: \<open>$ne\<close> goes through the not-equals form of the builder, \<open>$lt\<close>,
  \<open>$lte\<close>, \<open>$gt\<close> and \<open>$gte\<close> through the method the table names, and any field
  key with no recognized operator is translated as an equality. The code at
  \<open>{name: 'Ann', age: {toString: 25}}\<close>: \<open>toString\<close> is no operator of the table, but
  \<open>METHODS['toString']\<close> reads the function every object inherits, which is truthy, so
  the key takes the branch of the known methods, \<open>search.where('age')[method](25)\<close>
  calls a member the field does not have, and the translation throws a TypeError. The
  second conjunct is the same query with a key that nothing inherits: the equality on
  \<open>age\<close> that the claim describes.
\<close>

theorem inherited_key_throws_instead_of_equality:
  "redisQuery plain_repository []
     [(''name'', JStr ''Ann''), (''age'', JObj [(''toString'', JNum 25)])] None
     = Inl TypeError
   \<and> redisQuery plain_repository []
     [(''name'', JStr ''Ann''), (''age'', JObj [(''unknown'', JNum 25)])] None
     = Inr [WhereEquals ''name'' (JStr ''Ann''), WhereEquals ''age'' (JNum 25)]"
  by (simp add: redisQuery_def operator_call_def builder_call_def plain_repository_def get_prop_def
      METHODS_def inherited_members_def)

section \<open>Creating records\<close>

text \<open>
  The list branch of \<open>_create\<close> issues one save per payload, in order, whatever the
  store answers; when all of them succeed, the entities handed back and the documents
  of the store are the expected ones.
\<close>

lemma promise_all_Inr: "promise_all (map Inr xs) = Inr xs"
  by (induction xs) simp_all

lemma save_each_log:
  "log (fst (save_each a idf w items)) = log w @ saves_from a idf (draws w) items"
proof (induction items arbitrary: w)
  case Nil
  then show ?case by simp
next
  case (Cons item items)
  show ?case
    by (simp add: repo_save_def round_trip_def Let_def split_def Cons.IH split: option.splits)
qed

lemma save_each_success:
  "promise_all (snd (save_each a idf w items)) = Inr es \<Longrightarrow>
   es = created_from a idf (draws w) items
   \<and> docs (fst (save_each a idf w items)) = stored_after a idf (draws w) items (docs w)
   \<and> draws (fst (save_each a idf w items)) = draws w + length items"
proof (induction items arbitrary: w es)
  case Nil
  then show ?case by simp
next
  case (Cons item items)
  define u where "u = randomUUID a (draws w)"
  define obj where "obj = new_record idf u item"
  define w1 where
    "w1 = w\<lparr>draws := Suc (draws w), log := log w @ [Save u obj], docs := AList.update u obj (docs w)\<rparr>"
  have nofault: "fault (repository a) (Save u obj) = None"
  proof (cases "fault (repository a) (Save u obj)")
    case None
    then show ?thesis .
  next
    case (Some e)
    with Cons.prems show ?thesis
      by (simp add: repo_save_def round_trip_def Let_def split_def u_def obj_def)
  qed
  have step: "save_each a idf w (item # items)
      = (fst (save_each a idf w1 items),
         Inr \<lparr>entityId = u, entity_fields = obj\<rparr> # snd (save_each a idf w1 items))"
    using nofault
    by (simp add: repo_save_def round_trip_def Let_def split_def u_def obj_def w1_def)
  from Cons.prems step obtain es' where
    rest: "promise_all (snd (save_each a idf w1 items)) = Inr es'"
    and es: "es = \<lparr>entityId = u, entity_fields = obj\<rparr> # es'"
    by (auto split: sum.splits)
  from Cons.IH [OF rest] es step show ?case
    by (simp add: w1_def u_def obj_def)
qed

lemma save_each_no_fault:
  "\<forall>key obj. fault (repository a) (Save key obj) = None \<Longrightarrow>
   promise_all (snd (save_each a idf w items)) = Inr (created_from a idf (draws w) items)"
proof (induction items arbitrary: w)
  case Nil
  then show ?case by simp
next
  case (Cons item items)
  then show ?case
    by (simp add: repo_save_def round_trip_def Let_def split_def)
qed


text \<open>
  C10. The multi allow-list is consulted by \<open>create\<close> of the service only. Called
  directly on a list, \<open>_create\<close> saves every payload under its own fresh identifier
  and returns the created entities, for every adapter, so also for one whose allow-list
  does not contain \<open>create\<close> (as long as the store accepts the saves). The witness is a
  service without \<open>create\<close> in its allow-list: its public create refuses the list, its
  internal one stores both records.
\<close>

theorem internal_create_ignores_allow_list:
  assumes "\<forall>key obj. fault (repository a) (Save key obj) = None"
  shows "adapter_create a w (Many items) ps
      = (\<lparr>docs = stored_after a (id_field (getOptions a ps)) (draws w) items (docs w),
          log = log w @ saves_from a (id_field (getOptions a ps)) (draws w) items,
          draws = draws w + length items\<rparr>,
         Inr (Many (map (apply_select (f_select (fq_filters (filterQuery a ps))) (id_field (getOptions a ps)))
                      (created_from a (id_field (getOptions a ps)) (draws w) items))))
    \<and> length (created_from a (id_field (getOptions a ps)) (draws w) items) = length items"
proof -
  let ?idf = "id_field (getOptions a ps)"
  have ok: "promise_all (snd (save_each a ?idf w items)) = Inr (created_from a ?idf (draws w) items)"
    using assms by (rule save_each_no_fault)
  have eq: "adapter_create a w (Many items) ps
      = (fst (save_each a ?idf w items),
         Inr (Many (map (apply_select (f_select (fq_filters (filterQuery a ps))) ?idf)
                      (created_from a ?idf (draws w) items))))"
    using ok by (simp add: adapter_create_def catch_rethrow_def Let_def split_def)
  have len: "length (created_from a ?idf n items) = length items" for n
    by (induction items arbitrary: n) simp_all
  have wd: "fst (save_each a ?idf w items)
      = \<lparr>docs = stored_after a ?idf (draws w) items (docs w),
         log = log w @ saves_from a ?idf (draws w) items,
         draws = draws w + length items\<rparr>"
    using save_each_log [of a ?idf w items] save_each_success [OF ok]
    by (cases "fst (save_each a ?idf w items)") simp
  show ?thesis
    using eq wd len by simp
qed

theorem internal_create_ignores_allow_list_witness:
  "(\<forall>key obj. fault (repository (people_service plain_repository None people_options)) (Save key obj) = None)
   \<and> \<not> allowsMulti (people_service plain_repository None people_options) ''create'' plain_params
   \<and> service_create (people_service plain_repository None people_options) people_world
        (Many [[(''name'', JStr ''B1'')], [(''name'', JStr ''B2'')]]) plain_params
      = (people_world, Inl (MethodNotAllowed ''Can not create multiple entries''))
   \<and> adapter_create (people_service plain_repository None people_options) people_world
        (Many [[(''name'', JStr ''B1'')], [(''name'', JStr ''B2'')]]) plain_params
      = (\<lparr>docs = [(''u1'', ann),
                  (''id-0'', [(''uuid'', JStr ''id-0''), (''name'', JStr ''B1'')]),
                  (''id-1'', [(''uuid'', JStr ''id-1''), (''name'', JStr ''B2'')])],
          log = [Save ''id-0'' [(''uuid'', JStr ''id-0''), (''name'', JStr ''B1'')],
                 Save ''id-1'' [(''uuid'', JStr ''id-1''), (''name'', JStr ''B2'')]],
          draws = 2\<rparr>,
         Inr (Many [\<lparr>entityId = ''id-0'', entity_fields = [(''uuid'', JStr ''id-0''), (''name'', JStr ''B1'')]\<rparr>,
                    \<lparr>entityId = ''id-1'', entity_fields = [(''uuid'', JStr ''id-1''), (''name'', JStr ''B2'')]\<rparr>]))"
proof -
  have h: "\<forall>key obj. fault (repository (people_service plain_repository None people_options)) (Save key obj) = None"
    by (simp add: people_service_def plain_repository_def)
  have m: "\<not> allowsMulti (people_service plain_repository None people_options) ''create'' plain_params"
    by (simp add: allowsMulti_def people_service_def people_options_def)
  show ?thesis
    using h m internal_create_ignores_allow_list [OF h, of people_world
        "[[(''name'', JStr ''B1'')], [(''name'', JStr ''B2'')]]" plain_params]
    by (simp add: service_create_def people_service_def people_options_def people_world_def
        plain_params_def empty_query_def filterQuery_def apply_select_def new_record_def assign_def ann_def)
qed


section \<open>Lookup by id\<close>

text \<open>
  C7. Every failure of \<open>_get\<close> is NotFound for the requested id. Whatever error
  arises in the body of the lookup comes out as \<open>NotFound id\<close>, and \<open>_get\<close> fails
  with nothing else; in particular when the query matches no record, when the identity
  field of the fetched record is absent or falsy, and when the round trip to the store
  fails.
\<close>

theorem get_fails_only_with_NotFound:
  "(\<forall>e. snd (adapter_get a w i ps) = Inl e \<longrightarrow> e = NotFound i)
   \<and> (\<forall>e. snd (get_body a w i ps) = Inl e \<longrightarrow>
        adapter_get a w i ps = (fst (get_body a w i ps), Inl (NotFound i)))
   \<and> (fq_query (filterQuery a ps) \<noteq> []
        \<and> redisQuery (repository a) [] (fq_query (filterQuery a ps)) None = Inr search
        \<and> builder_call (repository a) (AndEq (id_field (getOptions a ps)) i) search = Inr search'
        \<and> fault (repository a) (ReturnAll search') = None
        \<and> run (repository a) search' (docs w) = [] \<longrightarrow>
        snd (adapter_get a w i ps) = Inl (NotFound i))
   \<and> (fq_query (filterQuery a ps) = []
        \<and> fault (repository a) (Fetch i) = None
        \<and> identity_missing (id_field (getOptions a ps))
             \<lparr>entityId = i, entity_fields = (case map_of (docs w) i of None \<Rightarrow> [] | Some d \<Rightarrow> d)\<rparr> \<longrightarrow>
        snd (adapter_get a w i ps) = Inl (NotFound i))
   \<and> (fq_query (filterQuery a ps) = [] \<and> fault (repository a) (Fetch i) = Some err \<longrightarrow>
        snd (adapter_get a w i ps) = Inl (NotFound i))"
proof (intro conjI allI impI)
  fix e
  assume "snd (adapter_get a w i ps) = Inl e"
  then show "e = NotFound i"
    by (cases "get_body a w i ps") (auto simp: adapter_get_def split: sum.splits)
next
  fix e
  assume "snd (get_body a w i ps) = Inl e"
  then show "adapter_get a w i ps = (fst (get_body a w i ps), Inl (NotFound i))"
    by (cases "get_body a w i ps") (auto simp: adapter_get_def split: sum.splits)
next
  assume "fq_query (filterQuery a ps) \<noteq> []
        \<and> redisQuery (repository a) [] (fq_query (filterQuery a ps)) None = Inr search
        \<and> builder_call (repository a) (AndEq (id_field (getOptions a ps)) i) search = Inr search'
        \<and> fault (repository a) (ReturnAll search') = None
        \<and> run (repository a) search' (docs w) = []"
  then show "snd (adapter_get a w i ps) = Inl (NotFound i)"
    by (simp add: adapter_get_def get_body_def lookup_by_query_def store_defs Let_def)
next
  assume "fq_query (filterQuery a ps) = []
        \<and> fault (repository a) (Fetch i) = None
        \<and> identity_missing (id_field (getOptions a ps))
             \<lparr>entityId = i, entity_fields = (case map_of (docs w) i of None \<Rightarrow> [] | Some d \<Rightarrow> d)\<rparr>"
  then show "snd (adapter_get a w i ps) = Inl (NotFound i)"
    by (simp add: adapter_get_def get_body_def store_defs Let_def)
next
  assume "fq_query (filterQuery a ps) = [] \<and> fault (repository a) (Fetch i) = Some err"
  then show "snd (adapter_get a w i ps) = Inl (NotFound i)"
    by (simp add: adapter_get_def get_body_def store_defs Let_def)
qed



theorem get_fails_only_with_NotFound_witness:
  "adapter_get (people_service plain_repository None people_options) people_world ''u1'' (by_name ''Bob'')
     = (people_world\<lparr>log := [ReturnAll [WhereEquals ''name'' (JStr ''Bob''), AndEq (Some ''uuid'') ''u1'']]\<rparr>,
        Inl (NotFound ''u1''))
   \<and> adapter_get (people_service plain_repository None people_options) people_world ''zz'' plain_params
     = (people_world\<lparr>log := [Fetch ''zz'']\<rparr>, Inl (NotFound ''zz''))
   \<and> fault failing_repository (Fetch ''u1'') = Some (OtherError ''ECONNRESET'')
   \<and> adapter_get (people_service failing_repository None people_options) people_world ''u1'' plain_params
     = (people_world\<lparr>log := [Fetch ''u1'']\<rparr>, Inl (NotFound ''u1''))"
proof -
  let ?a = "people_service plain_repository None people_options"
  let ?b = "people_service failing_repository None people_options"
  let ?s = "[WhereEquals ''name'' (JStr ''Bob'')]"
  let ?s' = "[WhereEquals ''name'' (JStr ''Bob''), AndEq (Some ''uuid'') ''u1'']"
  have q: "fq_query (filterQuery ?a (by_name ''Bob'')) \<noteq> []
        \<and> redisQuery (repository ?a) [] (fq_query (filterQuery ?a (by_name ''Bob''))) None = Inr ?s
        \<and> builder_call (repository ?a) (AndEq (id_field (getOptions ?a (by_name ''Bob''))) ''u1'') ?s = Inr ?s'
        \<and> fault (repository ?a) (ReturnAll ?s') = None
        \<and> run (repository ?a) ?s' (docs people_world) = []"
    by (simp add: example_defs redisQuery_def builder_call_def operator_call_def METHODS_def get_prop_def
        inherited_members_def)
  have m: "fq_query (filterQuery ?a plain_params) = []
        \<and> fault (repository ?a) (Fetch ''zz'') = None
        \<and> identity_missing (id_field (getOptions ?a plain_params))
             \<lparr>entityId = ''zz'',
                entity_fields = (case map_of (docs people_world) ''zz'' of None \<Rightarrow> [] | Some d \<Rightarrow> d)\<rparr>"
    by (simp add: example_defs identity_missing_def get_prop_def inherited_members_def)
  have f: "fq_query (filterQuery ?b plain_params) = []
        \<and> fault (repository ?b) (Fetch ''u1'') = Some (OtherError ''ECONNRESET'')"
    by (simp add: example_defs)
  have r1: "snd (adapter_get ?a people_world ''u1'' (by_name ''Bob'')) = Inl (NotFound ''u1'')"
    using q get_fails_only_with_NotFound [of ?a people_world "''u1''" "by_name ''Bob''" ?s ?s']
    by blast
  have r2: "snd (adapter_get ?a people_world ''zz'' plain_params) = Inl (NotFound ''zz'')"
    using m get_fails_only_with_NotFound [of ?a people_world "''zz''" plain_params]
    by blast
  have r3: "snd (adapter_get ?b people_world ''u1'' plain_params) = Inl (NotFound ''u1'')"
    using f get_fails_only_with_NotFound [of ?b people_world "''u1''" plain_params _ _ "OtherError ''ECONNRESET''"]
    by blast
  have w1: "fst (adapter_get ?a people_world ''u1'' (by_name ''Bob'')) = people_world\<lparr>log := [ReturnAll ?s']\<rparr>"
    by (simp add: example_defs adapter_get_def get_body_def lookup_by_query_def store_defs Let_def
        redisQuery_def builder_call_def operator_call_def METHODS_def get_prop_def inherited_members_def)
  have w2: "fst (adapter_get ?a people_world ''zz'' plain_params) = people_world\<lparr>log := [Fetch ''zz'']\<rparr>"
    by (simp add: example_defs adapter_get_def get_body_def store_defs Let_def identity_missing_def
        get_prop_def inherited_members_def)
  have w3: "fst (adapter_get ?b people_world ''u1'' plain_params) = people_world\<lparr>log := [Fetch ''u1'']\<rparr>"
    by (simp add: example_defs adapter_get_def get_body_def store_defs Let_def)
  have f3: "fault failing_repository (Fetch ''u1'') = Some (OtherError ''ECONNRESET'')"
    by (simp add: failing_repository_def)
  show ?thesis
    by (simp add: prod_eq_iff r1 r2 r3 w1 w2 w3 f3)
qed

section \<open>Creating records: identity and expiry\<close>

lemma map_of_assign:
  "distinct (map fst s) \<Longrightarrow>
   map_of (assign t s) k = (case map_of s k of Some v \<Rightarrow> Some v | None \<Rightarrow> map_of t k)"
proof (induction s arbitrary: t)
  case Nil
  then show ?case by (simp add: assign_def)
next
  case (Cons p s)
  obtain a b where p: "p = (a, b)" by (cases p)
  from Cons.prems p have d: "distinct (map fst s)" and n: "map_of s a = None"
    by (auto simp: map_of_eq_None_iff)
  have "map_of (assign t (p # s)) k = map_of (assign (AList.update a b t) s) k"
    by (simp add: assign_def p)
  also have "\<dots> = (case map_of s k of Some v \<Rightarrow> Some v | None \<Rightarrow> map_of (AList.update a b t) k)"
    using Cons.IH [OF d] by simp
  finally show ?case
    using n by (simp add: p update_conv' split: option.splits)
qed

text \<open>
  What \<open>_create\<close> saves and returns, for every payload: the record is the literal with
  the payload spread over the generated identity field, saved under the fresh
  identifier; so the identity field of the record is the fresh identifier exactly when
  the payload has no property of that name.
\<close>

lemma create_saves_spread_record:
  "(adapter_create a w (One item) ps = (w', Inr (One ent)) \<longrightarrow>
      ent = apply_select (f_select (fq_filters (filterQuery a ps))) (id_field (getOptions a ps))
              \<lparr>entityId = randomUUID a (draws w),
                 entity_fields = new_record (id_field (getOptions a ps)) (randomUUID a (draws w)) item\<rparr>
      \<and> map_of (docs w') (randomUUID a (draws w))
          = Some (new_record (id_field (getOptions a ps)) (randomUUID a (draws w)) item))
   \<and> (adapter_create a w (Many items) ps = (w', Inr (Many ents)) \<longrightarrow>
      ents = map (apply_select (f_select (fq_filters (filterQuery a ps))) (id_field (getOptions a ps)))
               (created_from a (id_field (getOptions a ps)) (draws w) items)
      \<and> docs w' = stored_after a (id_field (getOptions a ps)) (draws w) items (docs w))
   \<and> (distinct (map fst item) \<longrightarrow>
      map_of (new_record idf u item) (case idf of None \<Rightarrow> ''entityId'' | Some f \<Rightarrow> f)
        = Some (case map_of item (case idf of None \<Rightarrow> ''entityId'' | Some f \<Rightarrow> f) of
                  None \<Rightarrow> JStr u
                | Some v \<Rightarrow> v))"
proof -
  let ?idf = "id_field (getOptions a ps)"
  let ?sel = "f_select (fq_filters (filterQuery a ps))"
  let ?u = "randomUUID a (draws w)"
  let ?obj = "new_record ?idf ?u item"
  let ?e = "apply_select ?sel ?idf \<lparr>entityId = ?u, entity_fields = ?obj\<rparr>"
  let ?key = "case idf of None \<Rightarrow> ''entityId'' | Some f \<Rightarrow> f"
  have one: "ent = ?e \<and> map_of (docs w') ?u = Some ?obj"
    if h: "adapter_create a w (One item) ps = (w', Inr (One ent))"
  proof -
    from h have "ent = ?e \<and> docs w' = AList.update ?u ?obj (docs w)"
      by (auto simp: adapter_create_def store_defs expire_def Let_def
          split: option.splits if_splits sum.splits)
    then show ?thesis
      by (simp add: update_conv')
  qed
  have many: "ents = map (apply_select ?sel ?idf) (created_from a ?idf (draws w) items)
      \<and> docs w' = stored_after a ?idf (draws w) items (docs w)"
    if h: "adapter_create a w (Many items) ps = (w', Inr (Many ents))"
  proof -
    from h obtain es where ok: "promise_all (snd (save_each a ?idf w items)) = Inr es"
      and ents: "ents = map (apply_select ?sel ?idf) es"
      and w': "w' = fst (save_each a ?idf w items)"
      by (auto simp: adapter_create_def catch_rethrow_def Let_def split_def split: sum.splits)
    from save_each_success [OF ok] ents w' show ?thesis
      by simp
  qed
  have field: "map_of (new_record idf u item) ?key
        = Some (case map_of item ?key of None \<Rightarrow> JStr u | Some v \<Rightarrow> v)"
    if "distinct (map fst item)"
    using that by (simp add: new_record_def map_of_assign split: option.splits)
  from one many field show ?thesis
    by blast
qed

text \<open>
  C4. The claim: the identity field of every stored and returned record is the
  identifier the adapter generated, an identity value in the payload is never honoured,
  and the record is stored under the generated identifier. The code at a payload that
  carries its own \<open>uuid\<close>, on a service with \<open>expiration = 1\<close>: the payload is spread
  after the generated field, so the record saved under the fresh key \<open>id-0\<close> and the
  entity returned have \<open>uuid = mine\<close>. The rest of the adapter takes the identity field
  for the store key: the expiry of the new record is sent to the key \<open>mine\<close>, where
  nothing is stored, a get of \<open>mine\<close> finds nothing, and a get of \<open>id-0\<close> returns a
  record whose identity is not \<open>id-0\<close>.
\<close>

theorem payload_identity_overrides_generated:
  "adapter_create (people_service plain_repository (Some 1) people_options) people_world
     (One [(''uuid'', JStr ''mine''), (''name'', JStr ''B1'')]) plain_params
   = (\<lparr>docs = [(''u1'', ann), (''id-0'', [(''uuid'', JStr ''mine''), (''name'', JStr ''B1'')])],
       log = [Save ''id-0'' [(''uuid'', JStr ''mine''), (''name'', JStr ''B1'')], Expire (JStr ''mine'') 1],
       draws = 1\<rparr>,
      Inr (One \<lparr>entityId = ''id-0'', entity_fields = [(''uuid'', JStr ''mine''), (''name'', JStr ''B1'')]\<rparr>))
   \<and> snd (adapter_get (people_service plain_repository (Some 1) people_options)
        \<lparr>docs = [(''u1'', ann), (''id-0'', [(''uuid'', JStr ''mine''), (''name'', JStr ''B1'')])],
         log = [], draws = 1\<rparr> ''mine'' plain_params)
     = Inl (NotFound ''mine'')
   \<and> snd (adapter_get (people_service plain_repository (Some 1) people_options)
        \<lparr>docs = [(''u1'', ann), (''id-0'', [(''uuid'', JStr ''mine''), (''name'', JStr ''B1'')])],
         log = [], draws = 1\<rparr> ''id-0'' plain_params)
     = Inr \<lparr>entityId = ''id-0'', entity_fields = [(''uuid'', JStr ''mine''), (''name'', JStr ''B1'')]\<rparr>"
  by (simp add: example_defs adapter_create_def adapter_get_def get_body_def expire_def store_defs
      Let_def new_record_def assign_def apply_select_def identity_missing_def get_prop_def
      inherited_members_def)

text \<open>
  C2. The claim: a create with a list of items on an adapter with a default TTL applies
  the TTL to every created record. The code at a list of two items with
  \<open>expiration = 1\<close>: two saves and no \<open>Expire\<close>; the list branch returns before the
  statement that sets the expiry, which only the single-item path reaches (second
  conjunct: the same service, one item, \<open>Expire\<close> issued).
\<close>

theorem batch_create_issues_no_expire:
  "adapter_create (people_service plain_repository (Some 1) people_options) people_world
       (Many [[(''name'', JStr ''B1'')], [(''name'', JStr ''B2'')]]) plain_params
     = (\<lparr>docs = [(''u1'', ann),
                 (''id-0'', [(''uuid'', JStr ''id-0''), (''name'', JStr ''B1'')]),
                 (''id-1'', [(''uuid'', JStr ''id-1''), (''name'', JStr ''B2'')])],
         log = [Save ''id-0'' [(''uuid'', JStr ''id-0''), (''name'', JStr ''B1'')],
                Save ''id-1'' [(''uuid'', JStr ''id-1''), (''name'', JStr ''B2'')]],
         draws = 2\<rparr>,
        Inr (Many [\<lparr>entityId = ''id-0'', entity_fields = [(''uuid'', JStr ''id-0''), (''name'', JStr ''B1'')]\<rparr>,
                   \<lparr>entityId = ''id-1'', entity_fields = [(''uuid'', JStr ''id-1''), (''name'', JStr ''B2'')]\<rparr>]))
   \<and> adapter_create (people_service plain_repository (Some 1) people_options) people_world
       (One [(''name'', JStr ''B1'')]) plain_params
     = (\<lparr>docs = [(''u1'', ann), (''id-0'', [(''uuid'', JStr ''id-0''), (''name'', JStr ''B1'')])],
         log = [Save ''id-0'' [(''uuid'', JStr ''id-0''), (''name'', JStr ''B1'')], Expire (JStr ''id-0'') 1],
         draws = 1\<rparr>,
        Inr (One \<lparr>entityId = ''id-0'', entity_fields = [(''uuid'', JStr ''id-0''), (''name'', JStr ''B1'')]\<rparr>))"
  by (simp add: example_defs adapter_create_def expire_def store_defs Let_def new_record_def assign_def
      apply_select_def get_prop_def inherited_members_def)

lemma batch_create_never_expires:
  "filter is_expire (log (fst (adapter_create a w (Many items) ps))) = filter is_expire (log w)"
proof -
  have none: "filter is_expire (saves_from a idf n items) = []" for idf n
    by (induction items arbitrary: n) simp_all
  have "fst (adapter_create a w (Many items) ps) = fst (save_each a (id_field (getOptions a ps)) w items)"
    by (simp add: adapter_create_def catch_rethrow_def Let_def split_def split: sum.splits)
  then show ?thesis
    by (simp add: save_each_log none)
qed

section \<open>Finding records\<close>

text \<open>
  C5. The claim: a find with \<open>$limit\<close> exactly zero returns no data and issues no
  search query, whatever \<open>$skip\<close> and the pagination are. The code with pagination
  on: the page of size zero and the count are both issued, to fill the envelope.
\<close>

theorem find_limit_zero_counterexample:
  "adapter_find (people_service plain_repository None paged_options) people_world limit_zero
   = (people_world\<lparr>log := [ReturnPage [] (Number 0) (Number 0), ReturnCount []]\<rparr>,
      Inr (Paginated 1 (Number 0) (Number 0) []))"
  by (simp add: example_defs adapter_find_def find_search_def paginationDisabled_def store_defs Let_def)

text \<open>
  C5, as amended. For every find call whose \<open>$limit\<close> is exactly zero: when pagination
  is off and \<open>$skip\<close> is zero or absent, no round trip is issued to the store and,
  unless building the search fails, the result is the empty list; when pagination is on,
  the data of the returned envelope is the empty list.
\<close>

theorem find_limit_zero:
  assumes "f_limit (fq_filters (filterQuery a ps)) = Number 0"
  shows "(paginationDisabled ps (fq_paginate (filterQuery a ps))
          \<and> \<not> truthy_number (f_skip (fq_filters (filterQuery a ps))) \<longrightarrow>
          adapter_find a w ps
            = (w, case find_search a ps of Inl e \<Rightarrow> Inl (rethrow e) | Inr search \<Rightarrow> Inr (Results [])))
     \<and> (\<not> paginationDisabled ps (fq_paginate (filterQuery a ps)) \<longrightarrow>
          (\<forall>r. snd (adapter_find a w ps) = Inr r \<longrightarrow> result_data r = []))"
proof -
  have off: "adapter_find a w ps
            = (w, case find_search a ps of Inl e \<Rightarrow> Inl (rethrow e) | Inr search \<Rightarrow> Inr (Results []))"
    if "paginationDisabled ps (fq_paginate (filterQuery a ps))"
      and "\<not> truthy_number (f_skip (fq_filters (filterQuery a ps)))"
    using that assms
    by (simp add: adapter_find_def catch_rethrow_def Let_def split: sum.splits)
  have on: "result_data r = []"
    if "\<not> paginationDisabled ps (fq_paginate (filterQuery a ps))"
      and "snd (adapter_find a w ps) = Inr r" for r
    using that assms
    by (auto simp: adapter_find_def store_defs Let_def split: sum.splits option.splits)
  from off on show ?thesis
    by blast
qed


theorem find_limit_zero_witness:
  "f_limit (fq_filters (filterQuery (people_service plain_repository None people_options) limit_zero)) = Number 0
   \<and> paginationDisabled limit_zero (fq_paginate (filterQuery (people_service plain_repository None people_options) limit_zero))
   \<and> adapter_find (people_service plain_repository None people_options) people_world limit_zero
       = (people_world, Inr (Results []))
   \<and> \<not> paginationDisabled limit_zero (fq_paginate (filterQuery (people_service plain_repository None paged_options) limit_zero))
   \<and> result_data (Paginated 1 (Number 0) (Number 0) []) = []"
proof -
  let ?a = "people_service plain_repository None people_options"
  let ?b = "people_service plain_repository None paged_options"
  have l1: "f_limit (fq_filters (filterQuery ?a limit_zero)) = Number 0"
    by (simp add: example_defs)
  have l2: "f_limit (fq_filters (filterQuery ?b limit_zero)) = Number 0"
    by (simp add: example_defs)
  have off: "paginationDisabled limit_zero (fq_paginate (filterQuery ?a limit_zero))
          \<and> \<not> truthy_number (f_skip (fq_filters (filterQuery ?a limit_zero)))"
    by (simp add: example_defs paginationDisabled_def)
  have on: "\<not> paginationDisabled limit_zero (fq_paginate (filterQuery ?b limit_zero))"
    by (simp add: example_defs paginationDisabled_def)
  have s: "find_search ?a limit_zero = Inr []"
    by (simp add: example_defs find_search_def)
  have r: "snd (adapter_find ?b people_world limit_zero) = Inr (Paginated 1 (Number 0) (Number 0) [])"
    by (simp add: example_defs adapter_find_def find_search_def paginationDisabled_def store_defs Let_def)
  have e1: "adapter_find ?a people_world limit_zero = (people_world, Inr (Results []))"
    using off s find_limit_zero [OF l1, of people_world]
    by simp
  have e2: "result_data (Paginated 1 (Number 0) (Number 0) []) = []"
    using on r find_limit_zero [OF l2, of people_world]
    by blast
  from l1 off e1 on e2 show ?thesis
    by blast
qed

text \<open>
  What the code does with \<open>$limit: 0\<close> and a \<open>$skip\<close> that is not zero, pagination
  off: the test \<open>!$limit && $skip\<close> comes before the test \<open>$limit === 0\<close>, so the
  count and a page from \<open>$skip\<close> on are issued and the records are returned.
\<close>

lemma find_limit_zero_with_skip:
  "adapter_find (people_service plain_repository None people_options)
     (people_world\<lparr>docs := [(''u1'', ann), (''u2'', ann)]\<rparr>)
     (plain_params\<lparr>p_query := Some (empty_query\<lparr>q_limit := Some (Number 0), q_skip := Some (Number 1)\<rparr>)\<rparr>)
   = (\<lparr>docs = [(''u1'', ann), (''u2'', ann)],
       log = [ReturnCount [], ReturnPage [] (Number 1) (Number 2)],
       draws = 0\<rparr>,
      Inr (Results [\<lparr>entityId = ''u2'', entity_fields = ann\<rparr>]))"
  by (simp add: example_defs adapter_find_def find_search_def paginationDisabled_def store_defs Let_def
      apply_select_def)

section \<open>Patching and updating\<close>

text \<open>
  Neither \<open>_patch\<close> nor \<open>_update\<close> ever issues an \<open>Expire\<close>, whatever the
  parameters of the call are.
\<close>

lemma bind_quiet:
  assumes "filter is_expire (log (fst m)) = filter is_expire (log w)"
    and "\<And>w' x. filter is_expire (log (fst (f w' x))) = filter is_expire (log w')"
  shows "filter is_expire (log (fst (bind m f))) = filter is_expire (log w)"
proof (cases m)
  case (Pair w1 r)
  with assms show ?thesis
    by (cases r) (simp_all add: bind_def)
qed

lemma catch_rethrow_fst: "fst (catch_rethrow m) = fst m"
  by (cases m; cases "snd m") (simp_all add: catch_rethrow_def)

lemma round_trip_quiet:
  "\<not> is_expire c \<Longrightarrow> (\<And>w'. log (fst (effect w')) = log w') \<Longrightarrow>
   filter is_expire (log (fst (round_trip R w c effect))) = filter is_expire (log w)"
  by (simp add: round_trip_def Let_def split_def split: option.splits)

lemma fetch_quiet: "filter is_expire (log (fst (repo_fetch R w k))) = filter is_expire (log w)"
  unfolding repo_fetch_def by (rule round_trip_quiet) simp_all

lemma save_quiet: "filter is_expire (log (fst (repo_save R w k obj))) = filter is_expire (log w)"
  unfolding repo_save_def by (rule round_trip_quiet) simp_all

lemma return_all_quiet:
  "filter is_expire (log (fst (search_return_all R w s))) = filter is_expire (log w)"
  unfolding search_return_all_def by (rule round_trip_quiet) simp_all

lemma lookup_by_query_quiet:
  "filter is_expire (log (fst (lookup_by_query a w i ps))) = filter is_expire (log w)"
proof -
  have "filter is_expire (log (fst (bind (search_return_all (repository a) w s)
          (\<lambda>w results. case results of [] \<Rightarrow> (w, Inl (NotFound i)) | first # _ \<Rightarrow> (w, Inr first)))))
        = filter is_expire (log w)" for s
    by (rule bind_quiet [OF return_all_quiet]) (simp split: list.splits)
  then show ?thesis
    by (simp add: lookup_by_query_def split: sum.splits)
qed

lemma get_quiet:
  "filter is_expire (log (fst (adapter_get a w i ps))) = filter is_expire (log w)"
proof -
  have "filter is_expire (log (fst (get_body a w i ps))) = filter is_expire (log w)"
    unfolding get_body_def Let_def
    by (rule bind_quiet) (simp_all add: lookup_by_query_quiet fetch_quiet)
  moreover have "fst (adapter_get a w i ps) = fst (get_body a w i ps)"
    by (cases "get_body a w i ps"; cases "snd (get_body a w i ps)") (simp_all add: adapter_get_def)
  ultimately show ?thesis by simp
qed

lemma patch_never_expires:
  "filter is_expire (log (fst (adapter_patch a w i d ps))) = filter is_expire (log w)"
proof (cases i)
  case None
  then show ?thesis by (simp add: adapter_patch_def catch_rethrow_fst)
next
  case (Some k)
  have "filter is_expire (log (fst (bind (adapter_get a w k ps)
          (\<lambda>w ent. let ent' = ent\<lparr>entity_fields := assign (entity_fields ent) d\<rparr>
                    in bind (repo_save_entity (repository a) w ent') (\<lambda>w saved. (w, Inr ent'))))))
        = filter is_expire (log w)"
    by (rule bind_quiet [OF get_quiet])
       (simp add: Let_def repo_save_entity_def bind_quiet [OF save_quiet])
  with Some show ?thesis
    by (simp add: adapter_patch_def catch_rethrow_fst)
qed

lemma update_never_expires:
  "filter is_expire (log (fst (adapter_update a w i d ps))) = filter is_expire (log w)"
proof (cases i)
  case None
  then show ?thesis by (simp add: adapter_update_def catch_rethrow_fst)
next
  case (Some k)
  have found: "filter is_expire (log (fst (if fq_query (filterQuery a ps) \<noteq> [] then lookup_by_query a w k ps
                      else bind (repo_fetch (repository a) w k)
                             (\<lambda>w ent. if identity_missing (id_field (getOptions a ps)) ent
                                       then (w, Inl (NotFound k)) else (w, Inr ent)))))
        = filter is_expire (log w)"
    by (simp add: lookup_by_query_quiet bind_quiet [OF fetch_quiet])
  have "filter is_expire (log (fst (bind (if fq_query (filterQuery a ps) \<noteq> [] then lookup_by_query a w k ps
                      else bind (repo_fetch (repository a) w k)
                             (\<lambda>w ent. if identity_missing (id_field (getOptions a ps)) ent
                                       then (w, Inl (NotFound k)) else (w, Inr ent)))
          (\<lambda>w existing. bind (repo_save (repository a) w k d)
             (\<lambda>w saved. (w, Inr (apply_select (f_select (fq_filters (filterQuery a ps)))
                                   (id_field (getOptions a ps)) saved)))))))
        = filter is_expire (log w)"
    by (rule bind_quiet [OF found]) (simp add: bind_quiet [OF save_quiet])
  with Some show ?thesis
    by (simp add: adapter_update_def catch_rethrow_fst Let_def)
qed


text \<open>
  C1. The claim: an update or patch of an existing record applies the default TTL if and
  only if the caller passed a truthy \<open>refreshExpiration\<close>. The code at a patch and at
  an update of the stored record \<open>u1\<close> with \<open>refreshExpiration: true\<close> on a service
  with \<open>expiration = 10\<close>: a fetch and a save, no \<open>Expire\<close>. Neither method reads
  the option.
\<close>

theorem refresh_option_issues_no_expire:
  "adapter_patch (people_service plain_repository (Some 10) people_options) people_world (Some ''u1'')
       [(''age'', JNum 26)] refreshing
     = (\<lparr>docs = [(''u1'', [(''uuid'', JStr ''u1''), (''name'', JStr ''Ann''), (''age'', JNum 26), (''friends'', JArr [])])],
         log = [Fetch ''u1'',
                Save ''u1'' [(''uuid'', JStr ''u1''), (''name'', JStr ''Ann''), (''age'', JNum 26), (''friends'', JArr [])]],
         draws = 0\<rparr>,
        Inr \<lparr>entityId = ''u1'',
             entity_fields = [(''uuid'', JStr ''u1''), (''name'', JStr ''Ann''), (''age'', JNum 26), (''friends'', JArr [])]\<rparr>)
   \<and> adapter_update (people_service plain_repository (Some 10) people_options) people_world (Some ''u1'')
       [(''uuid'', JStr ''u1''), (''name'', JStr ''Bob'')] refreshing
     = (\<lparr>docs = [(''u1'', [(''uuid'', JStr ''u1''), (''name'', JStr ''Bob'')])],
         log = [Fetch ''u1'', Save ''u1'' [(''uuid'', JStr ''u1''), (''name'', JStr ''Bob'')]],
         draws = 0\<rparr>,
        Inr \<lparr>entityId = ''u1'', entity_fields = [(''uuid'', JStr ''u1''), (''name'', JStr ''Bob'')]\<rparr>)
   \<and> truthy (refreshExpiration refreshing)"
  by (simp add: example_defs adapter_patch_def adapter_update_def adapter_get_def get_body_def store_defs Let_def
      identity_missing_def get_prop_def inherited_members_def apply_select_def assign_def)

text \<open>
  \<open>_patch\<close> writes back the entity that \<open>_get\<close> returned, merged with the data, and
  \<open>_get\<close> has already applied \<open>$select\<close> to it.
\<close>

lemma patch_saves_what_get_returned:
  assumes "adapter_get a w k ps = (w1, Inr ent)"
    and "fault (repository a) (Save (entityId ent) (assign (entity_fields ent) d)) = None"
  shows "adapter_patch a w (Some k) d ps
     = (w1\<lparr>log := log w1 @ [Save (entityId ent) (assign (entity_fields ent) d)],
           docs := AList.update (entityId ent) (assign (entity_fields ent) d) (docs w1)\<rparr>,
        Inr (ent\<lparr>entity_fields := assign (entity_fields ent) d\<rparr>))"
  using assms
  by (simp add: adapter_patch_def store_defs Let_def)

text \<open>
  C6. The claim: after a patch with a non-null id, also with a \<open>$select\<close>, what is
  stored is the previous record with the fields of the data overwritten, every other
  field retained. The code at a patch of \<open>age\<close> with \<open>$select: [name]\<close> on the record
  \<open>u1\<close>, which has \<open>friends\<close>: the document saved has lost \<open>friends\<close>. The third
  conjunct is \<open>_update\<close> with the same \<open>$select\<close>: it saves the whole data and
  projects only what it returns.
\<close>

theorem patch_with_select_drops_fields:
  "adapter_patch (people_service plain_repository None people_options) people_world (Some ''u1'')
       [(''age'', JNum 26)] (selecting [''name''])
     = (\<lparr>docs = [(''u1'', [(''uuid'', JStr ''u1''), (''name'', JStr ''Ann''), (''age'', JNum 26)])],
         log = [Fetch ''u1'', Save ''u1'' [(''uuid'', JStr ''u1''), (''name'', JStr ''Ann''), (''age'', JNum 26)]],
         draws = 0\<rparr>,
        Inr \<lparr>entityId = ''u1'',
             entity_fields = [(''uuid'', JStr ''u1''), (''name'', JStr ''Ann''), (''age'', JNum 26)]\<rparr>)
   \<and> get_prop ann ''friends'' = JArr []
   \<and> adapter_update (people_service plain_repository None people_options) people_world (Some ''u1'')
       [(''uuid'', JStr ''u1''), (''name'', JStr ''Bob''), (''age'', JNum 31)] (selecting [''name''])
     = (\<lparr>docs = [(''u1'', [(''uuid'', JStr ''u1''), (''name'', JStr ''Bob''), (''age'', JNum 31)])],
         log = [Fetch ''u1'', Save ''u1'' [(''uuid'', JStr ''u1''), (''name'', JStr ''Bob''), (''age'', JNum 31)]],
         draws = 0\<rparr>,
        Inr \<lparr>entityId = ''u1'', entity_fields = [(''uuid'', JStr ''u1''), (''name'', JStr ''Bob'')]\<rparr>)"
  by (simp add: example_defs adapter_patch_def adapter_update_def adapter_get_def get_body_def store_defs Let_def
      identity_missing_def get_prop_def inherited_members_def apply_select_def select_fields_def assign_def)



end
